theory Spec2Isabelle
  imports Main "HOL-Library.Word"
begin

section \<open>The chat assistant of Kisan.JI: text and voice conversation\<close>

text \<open>
  This theory embeds the conversational core of the front end: the component
  \<^verbatim>\<open>Chatbot\<close> (\<^verbatim>\<open>src/frontend/src/components/Chatbot.js\<close>) and the three
  methods of \<^verbatim>\<open>ApiService\<close> it relies on (\<^verbatim>\<open>request\<close>, \<^verbatim>\<open>voiceChat\<close>,
  \<^verbatim>\<open>transcribeAudio\<close> in \<^verbatim>\<open>src/frontend/src/services/api.js\<close>).

  Conventions of the embedding.
  \<^item> A JavaScript string is the list of its UTF-16 code units (\<open>jsstring\<close>); a
    property that may be \<^verbatim>\<open>undefined\<close> or \<^verbatim>\<open>null\<close> is an \<open>option\<close>.
  \<^item> The React state of the component, its two refs, and the parts of the
    environment it reads or changes (the language of the context, the user id in
    local storage, the microphone streams that are open, the alerts shown) are the
    fields of one record, \<open>session\<close>. A state setter becomes a record update; the
    functional setter \<^verbatim>\<open>setMessages(prev => [...prev, m])\<close> appends to the list
    the state holds at that moment.
  \<^item> An \<^verbatim>\<open>async\<close> handler is cut at each \<^verbatim>\<open>await\<close>: the part up to the
    \<^verbatim>\<open>await\<close> returns \<open>Awaiting s c\<close>, the state reached and the call that is
    now in flight; the part after it is a function of its own (suffix
    \<open>_resume\<close>, \<open>_transcribed\<close>, \<open>_replied\<close>, \<open>_end\<close>) that takes the state at the
    moment of resumption and the outcome of the call. A handler that has
    returned is \<open>Finished s\<close> (its promise is fulfilled); one that ends by an
    exception it does not catch is \<open>Thrown s e\<close> (its promise is rejected with
    \<open>e\<close>).
  \<^item> A thrown exception or rejected promise is the left summand of \<open>error + 'a\<close>.
\<close>

subsection \<open>JavaScript values\<close>

type_synonym jsstring = "nat list"

type_synonym blob = "8 word list"

definition str :: "string \<Rightarrow> jsstring" where
  "str cs = map of_char cs"

text \<open>Truthiness of a value that is a string, \<^verbatim>\<open>undefined\<close> or \<^verbatim>\<open>null\<close>.\<close>

definition truthy :: "jsstring option \<Rightarrow> bool" where
  "truthy v = (case v of None \<Rightarrow> False | Some t \<Rightarrow> t \<noteq> [])"

text \<open>\<^verbatim>\<open>a || b\<close>: the first operand when it is truthy, the second otherwise.\<close>

definition js_or :: "jsstring option \<Rightarrow> jsstring option \<Rightarrow> jsstring option" where
  "js_or a b = (if truthy a then a else b)"

text \<open>
  \<^verbatim>\<open>String.prototype.trim\<close> strips the code units of WhiteSpace and
  LineTerminator from both ends: TAB, LF, VT, FF, CR, SP, NBSP, U+1680,
  U+2000 to U+200A, U+2028, U+2029, U+202F, U+205F, U+3000 and U+FEFF.
\<close>

definition isWhiteSpace :: "nat \<Rightarrow> bool" where
  "isWhiteSpace c =
     (c \<in> set [9, 10, 11, 12, 13, 32, 160, 5760, 8232, 8233, 8239, 8287, 12288, 65279]
      \<or> (8192 \<le> c \<and> c \<le> 8202))"

definition trim :: "jsstring \<Rightarrow> jsstring" where
  "trim t = rev (dropWhile isWhiteSpace (rev (dropWhile isWhiteSpace t)))"

text \<open>\<^verbatim>\<open>xs[i]\<close>: out of range the result is \<^verbatim>\<open>undefined\<close>.\<close>

definition js_index :: "'a list \<Rightarrow> int \<Rightarrow> 'a option" where
  "js_index xs i = (if 0 \<le> i \<and> i < int (length xs) then Some (xs ! nat i) else None)"

text \<open>
  Numbers. A pair \<open>(m, k)\<close> stands for the non-negative number \<open>m / 2 ^ k\<close>.
  The doubles in \<open>[0, 1)\<close>, the values \<^verbatim>\<open>Math.random()\<close> can return, are the
  numbers with a significand \<open>m\<close> of at most 53 bits, an exponent \<open>- k\<close> of at
  least \<open>- 1074\<close> and \<open>m < 2 ^ k\<close>.
\<close>

type_synonym double = "nat \<times> nat"

definition isRandom :: "double \<Rightarrow> bool" where
  "isRandom d = (fst d < 2 ^ 53 \<and> snd d \<le> 1074 \<and> fst d < 2 ^ snd d)"

text \<open>
  Rounding to a double, as every arithmetic operation of JavaScript does: an
  integer numerator is cut to its 53 leading bits, to the nearest and on a tie
  to the even one. \<open>excess n\<close> is the number of bits \<open>n\<close> has beyond 53.
\<close>

fun excess :: "nat \<Rightarrow> nat" where
  "excess n = (if n < 2 ^ 53 then 0 else Suc (excess (n div 2)))"

declare excess.simps [simp del]

definition round53 :: "nat \<Rightarrow> nat" where
  "round53 n =
     (let b = excess n; q = n div 2 ^ b; r = n mod 2 ^ b
      in if 2 ^ b < 2 * r \<or> (2 * r = 2 ^ b \<and> odd q) then (q + 1) * 2 ^ b else q * 2 ^ b)"

text \<open>
  \<^verbatim>\<open>d * n\<close> for a double \<open>d\<close> and a small natural number \<open>n\<close> (one that is a
  double itself, as the length of an array is): the exact product \<open>m * n / 2 ^ k\<close>
  rounded to a double. The product is at least \<open>d\<close>, so nothing underflows.
\<close>

definition double_times :: "double \<Rightarrow> nat \<Rightarrow> double" where
  "double_times d n = (round53 (fst d * n), snd d)"

text \<open>\<^verbatim>\<open>Math.floor\<close> of a non-negative number.\<close>

definition Math_floor :: "double \<Rightarrow> int" where
  "Math_floor d = int (fst d div 2 ^ snd d)"

text \<open>\<^verbatim>\<open>new Blob(chunks)\<close> concatenates the chunks.\<close>

definition Blob :: "blob list \<Rightarrow> blob" where
  "Blob chunks = concat chunks"

subsection \<open>The API service\<close>

datatype error =
    FetchFailed
  | BodyNotJson
  | Error "jsstring option"

text \<open>The JSON object of an error response: its \<^verbatim>\<open>detail\<close> and \<^verbatim>\<open>message\<close>.\<close>

datatype error_body = ErrorBody (detail: "jsstring option") (message: "jsstring option")

text \<open>
  What \<^verbatim>\<open>fetch\<close> and the reading of the body come to: the promise of
  \<^verbatim>\<open>fetch\<close> rejects; or there is a response whose \<^verbatim>\<open>ok\<close> is false, with
  its body parsed as JSON (\<open>None\<close> when \<^verbatim>\<open>response.json()\<close> rejects); or a
  response whose \<^verbatim>\<open>ok\<close> is true, with its body parsed likewise.
\<close>

datatype 'a http_outcome =
    FetchRejected
  | HttpNotOk "error_body option"
  | HttpOk "'a option"

datatype http_body =
    JsonBody "jsstring option" "jsstring option" "jsstring option"
  | FormData blob "jsstring option"

datatype http_request = Post string http_body

text \<open>
  The fields of the two JSON results the component reads, typed as the two
  endpoints declare them; a field that is absent is \<open>None\<close>. (A body that is
  JSON but not an object is not modelled.)
\<close>

datatype chat_result = ChatResult (response: "jsstring option") (reply_language: "jsstring option")

datatype transcribe_result =
  TranscribeResult (success: bool) (result_text: "jsstring option") (detected_language: "jsstring option")

text \<open>
  \<^verbatim>\<open>request(endpoint, options)\<close>: the \<^verbatim>\<open>catch\<close> logs and throws the error
  again, so it changes no outcome.
\<close>

definition request :: "(http_request \<Rightarrow> 'a http_outcome) \<Rightarrow> http_request \<Rightarrow> error + 'a" where
  "request fetch req =
     (case fetch req of
        FetchRejected \<Rightarrow> Inl FetchFailed
      | HttpNotOk b \<Rightarrow>
          (let err = (case b of None \<Rightarrow> ErrorBody None (Some (str ''Request failed'')) | Some e \<Rightarrow> e)
           in Inl (Error (js_or (js_or (detail err) (message err)) (Some (str ''Request failed'')))))
      | HttpOk None \<Rightarrow> Inl BodyNotJson
      | HttpOk (Some r) \<Rightarrow> Inr r)"

text \<open>
  An argument that has a default: it is left out or \<^verbatim>\<open>undefined\<close>, or it is
  given, and then it may be \<^verbatim>\<open>null\<close> (\<open>None\<close>).
\<close>

datatype 'a argument = Undefined | Given 'a

text \<open>
  \<^verbatim>\<open>voiceChat(message, language = 'en', farmerId = null)\<close>: the default of
  \<^verbatim>\<open>language\<close> applies when the argument is \<^verbatim>\<open>undefined\<close> and only then;
  a \<^verbatim>\<open>null\<close> is posted as it is. (For \<^verbatim>\<open>farmerId\<close> the default is
  \<^verbatim>\<open>null\<close>, and both are \<open>None\<close>.)
\<close>

definition voiceChat ::
  "(http_request \<Rightarrow> chat_result http_outcome) \<Rightarrow> jsstring option
     \<Rightarrow> jsstring option argument \<Rightarrow> jsstring option \<Rightarrow> error + chat_result" where
  "voiceChat fetch msg lang farmerId =
     request fetch
       (Post ''/voice/chat''
          (JsonBody msg (case lang of Undefined \<Rightarrow> Some (str ''en'') | Given l \<Rightarrow> l) farmerId))"

definition transcribeAudio ::
  "(http_request \<Rightarrow> transcribe_result http_outcome) \<Rightarrow> blob \<Rightarrow> jsstring option
     \<Rightarrow> error + transcribe_result" where
  "transcribeAudio fetch audioBlob farmerId =
     (case fetch (Post ''/voice/transcribe''
                    (FormData audioBlob (if truthy farmerId then farmerId else None))) of
        FetchRejected \<Rightarrow> Inl FetchFailed
      | HttpNotOk b \<Rightarrow>
          (let err = (case b of None \<Rightarrow> ErrorBody None (Some (str ''Transcription failed''))
                              | Some e \<Rightarrow> e)
           in Inl (Error (js_or (detail err) (message err))))
      | HttpOk None \<Rightarrow> Inl BodyNotJson
      | HttpOk (Some r) \<Rightarrow> Inr r)"

subsection \<open>The state of the component\<close>

datatype role = User | Assistant

text \<open>
  A message object. \<open>isVoice\<close> is false for the objects built without that key
  (it is only tested for truth), \<open>language\<close> is \<open>None\<close> for those built without
  a language.
\<close>

record message =
  role :: role
  content :: "jsstring option"
  isVoice :: bool
  language :: "jsstring option"

text \<open>The \<^verbatim>\<open>state\<close> of a \<^verbatim>\<open>MediaRecorder\<close>.\<close>

datatype recorder_state = Inactive | Recording | Paused

text \<open>
  \<open>mediaRecorder\<close> is \<^verbatim>\<open>mediaRecorderRef.current\<close> (the state of the recorder it
  holds, \<open>None\<close> for \<^verbatim>\<open>null\<close>), \<open>audioChunks\<close> is \<^verbatim>\<open>audioChunksRef.current\<close>.
  \<open>openStreams\<close> counts the streams obtained from \<^verbatim>\<open>getUserMedia\<close> whose tracks
  have not been stopped: the microphone is held while it is positive.
  \<open>uiLanguage\<close> is the \<^verbatim>\<open>language\<close> of the language context, \<open>userId\<close> is
  \<^verbatim>\<open>localStorage.getItem('userId')\<close>, \<open>alerts\<close> the texts passed to
  \<^verbatim>\<open>alert\<close> so far.
\<close>

record session =
  messages :: "message list"
  input :: jsstring
  isListening :: bool
  isProcessing :: bool
  isLoading :: bool
  mediaRecorder :: "recorder_state option"
  audioChunks :: "blob list"
  openStreams :: nat
  uiLanguage :: jsstring
  userId :: "jsstring option"
  alerts :: "jsstring list"

text \<open>The calls the handlers wait for, with the arguments the component passes.\<close>

datatype call =
    GetUserMedia
  | TranscribeAudio blob "jsstring option"
  | VoiceChat "jsstring option" "jsstring option" "jsstring option"

text \<open>
  How far a handler has come: it has returned, it waits for a call, or it has
  thrown. Every handler of the component catches the errors of the calls it
  awaits, and none has a \<^verbatim>\<open>throw\<close> of its own.
\<close>

datatype pending = Finished session | Awaiting session call | Thrown session error

fun state_of :: "pending \<Rightarrow> session" where
  "state_of (Finished s) = s"
| "state_of (Awaiting s c) = s"
| "state_of (Thrown s e) = s"

fun in_flight :: "pending \<Rightarrow> call option" where
  "in_flight (Finished s) = None"
| "in_flight (Awaiting s c) = Some c"
| "in_flight (Thrown s e) = None"

definition micHeld :: "session \<Rightarrow> bool" where
  "micHeld s = (0 < openStreams s)"

text \<open>No stage is active: none of the three flags of the component is set.\<close>

definition idle :: "session \<Rightarrow> bool" where
  "idle s = (\<not> isListening s \<and> \<not> isProcessing s \<and> \<not> isLoading s)"

definition greeting :: message where
  "greeting =
     \<lparr>role = Assistant,
      content = Some (str ''Hello! I am Kisan.JI AI Assistant powered by Gemini. Ask me anything about farming, crops, weather, or government schemes!''),
      isVoice = False,
      language = None\<rparr>"

text \<open>The state of a freshly mounted component, in a given environment.\<close>

definition initial :: "jsstring \<Rightarrow> jsstring option \<Rightarrow> session" where
  "initial lang uid =
     \<lparr>messages = [greeting], input = [], isListening = False, isProcessing = False,
      isLoading = False, mediaRecorder = None, audioChunks = [], openStreams = 0,
      uiLanguage = lang, userId = uid, alerts = []\<rparr>"

subsection \<open>Text chat: \<^verbatim>\<open>handleSend\<close>\<close>

definition fallbackResponses :: "jsstring list" where
  "fallbackResponses =
     [str ''Based on your location, I recommend planting wheat this season for optimal yield.'',
      str ''The weather forecast shows good conditions for spraying in the next 2 days.'',
      str ''Current market prices in your nearest mandi show rice at '' @ [8377] @ str ''2,100 per quintal.'',
      str ''For pest control, I suggest using neem-based organic pesticides.'',
      str ''You may be eligible for the PM-KISAN scheme. Visit your nearest CSC for registration.'']"

text \<open>
  Up to the \<^verbatim>\<open>await\<close> of \<^verbatim>\<open>api.voiceChat\<close>. The guard returns at once on an
  input that trims to the empty string, or while a reply is being loaded.
\<close>

definition handleSend :: "session \<Rightarrow> pending" where
  "handleSend s =
     (if trim (input s) = [] \<or> isLoading s then Finished s
      else Awaiting
             (s\<lparr>messages := messages s @
                   [\<lparr>role = User, content = Some (input s), isVoice = False, language = None\<rparr>],
                input := [],
                isLoading := True\<rparr>)
             (VoiceChat (Some (input s)) (js_or (Some (uiLanguage s)) (Some (str ''en''))) (userId s)))"

text \<open>
  After the \<^verbatim>\<open>await\<close>: \<open>result\<close> is the outcome of \<^verbatim>\<open>api.voiceChat\<close> and
  \<open>rnd\<close> the value \<^verbatim>\<open>Math.random()\<close> returns if it is called. The
  \<^verbatim>\<open>finally\<close> block clears \<^verbatim>\<open>isLoading\<close> on both paths. The index is
  \<^verbatim>\<open>Math.floor\<close> of the product as a double, that is, of the rounded product.
\<close>

definition handleSend_resume :: "session \<Rightarrow> error + chat_result \<Rightarrow> double \<Rightarrow> session" where
  "handleSend_resume s result rnd =
     (case result of
        Inr r \<Rightarrow>
          s\<lparr>messages := messages s @
               [\<lparr>role = Assistant, content = response r, isVoice = False,
                 language = reply_language r\<rparr>],
            isLoading := False\<rparr>
      | Inl e \<Rightarrow>
          (let randomResponse =
                 js_index fallbackResponses
                   (Math_floor (double_times rnd (length fallbackResponses)))
           in s\<lparr>messages := messages s @
                    [\<lparr>role = Assistant, content = randomResponse, isVoice = False,
                      language = None\<rparr>],
                 isLoading := False\<rparr>))"

subsection \<open>Voice chat: recording\<close>

datatype media_outcome = Denied | Granted

text \<open>\<^verbatim>\<open>startRecording\<close> begins by awaiting \<^verbatim>\<open>getUserMedia\<close>.\<close>

definition startRecording :: "session \<Rightarrow> pending" where
  "startRecording s = Awaiting s GetUserMedia"

text \<open>
  After \<^verbatim>\<open>getUserMedia\<close>: when it rejects, the \<^verbatim>\<open>catch\<close> shows an alert.
  When it resolves, a stream is open from then on; the handler installs a new
  recorder in the ref, replaces the chunk array by an empty one, starts the
  recorder and sets \<^verbatim>\<open>isListening\<close>. (The constructor and \<^verbatim>\<open>start()\<close> of the
  platform's \<^verbatim>\<open>MediaRecorder\<close> are taken to succeed.)
\<close>

definition startRecording_resume :: "session \<Rightarrow> media_outcome \<Rightarrow> session" where
  "startRecording_resume s m =
     (case m of
        Denied \<Rightarrow>
          s\<lparr>alerts := alerts s @ [str ''Could not access microphone. Please check permissions.'']\<rparr>
      | Granted \<Rightarrow>
          s\<lparr>openStreams := Suc (openStreams s),
            mediaRecorder := Some Recording,
            audioChunks := [],
            isListening := True\<rparr>)"

definition stopRecording :: "session \<Rightarrow> session" where
  "stopRecording s =
     (if mediaRecorder s = Some Recording
      then s\<lparr>mediaRecorder := Some Inactive, isListening := False\<rparr>
      else s)"

definition handleVoiceInput :: "session \<Rightarrow> pending" where
  "handleVoiceInput s = (if isListening s then Finished (stopRecording s) else startRecording s)"

text \<open>The recorder's \<^verbatim>\<open>ondataavailable\<close>, with the data of the event.\<close>

definition ondataavailable :: "session \<Rightarrow> blob \<Rightarrow> session" where
  "ondataavailable s d = (if 0 < length d then s\<lparr>audioChunks := audioChunks s @ [d]\<rparr> else s)"

subsection \<open>Voice chat: \<^verbatim>\<open>processVoiceInput\<close> and the recorder's \<^verbatim>\<open>onstop\<close>\<close>

definition apology :: message where
  "apology =
     \<lparr>role = Assistant,
      content = Some (str ''Sorry, I had trouble understanding. Please try speaking again or type your question.''),
      isVoice = False,
      language = None\<rparr>"

text \<open>Up to the \<^verbatim>\<open>await\<close> of \<^verbatim>\<open>api.transcribeAudio\<close>.\<close>

definition processVoiceInput :: "session \<Rightarrow> blob \<Rightarrow> pending" where
  "processVoiceInput s audioBlob =
     Awaiting (s\<lparr>isProcessing := True\<rparr>) (TranscribeAudio audioBlob (userId s))"

text \<open>
  After the transcription: a thrown error goes to the \<^verbatim>\<open>catch\<close>; a result with
  truthy \<^verbatim>\<open>success\<close> and \<^verbatim>\<open>text\<close> appends the user's message and awaits
  \<^verbatim>\<open>api.voiceChat\<close>; any other result skips to the \<^verbatim>\<open>finally\<close>.
\<close>

definition processVoiceInput_transcribed :: "session \<Rightarrow> error + transcribe_result \<Rightarrow> pending" where
  "processVoiceInput_transcribed s transcribeResult =
     (case transcribeResult of
        Inl e \<Rightarrow> Finished (s\<lparr>messages := messages s @ [apology], isProcessing := False\<rparr>)
      | Inr r \<Rightarrow>
          if success r \<and> truthy (result_text r)
          then (let transcribedText = result_text r;
                    detectedLang = js_or (detected_language r) (Some (uiLanguage s))
                in Awaiting
                     (s\<lparr>messages := messages s @
                           [\<lparr>role = User, content = transcribedText, isVoice = True,
                             language = detectedLang\<rparr>]\<rparr>)
                     (VoiceChat transcribedText detectedLang (userId s)))
          else Finished (s\<lparr>isProcessing := False\<rparr>))"

text \<open>After the reply: the assistant's message, or the \<^verbatim>\<open>catch\<close>; then the \<^verbatim>\<open>finally\<close>.\<close>

definition processVoiceInput_replied :: "session \<Rightarrow> error + chat_result \<Rightarrow> session" where
  "processVoiceInput_replied s chatResult =
     (case chatResult of
        Inl e \<Rightarrow> s\<lparr>messages := messages s @ [apology], isProcessing := False\<rparr>
      | Inr c \<Rightarrow>
          s\<lparr>messages := messages s @
               [\<lparr>role = Assistant, content = response c, isVoice = False,
                 language = reply_language c\<rparr>],
            isProcessing := False\<rparr>)"

text \<open>
  The recorder's \<^verbatim>\<open>onstop\<close>: it builds the blob, awaits
  \<^verbatim>\<open>processVoiceInput\<close>, and once that has returned stops the tracks of its
  stream (\<open>onstop_end\<close>).
\<close>

definition onstop :: "session \<Rightarrow> pending" where
  "onstop s = processVoiceInput s (Blob (audioChunks s))"

definition onstop_end :: "session \<Rightarrow> session" where
  "onstop_end s = s\<lparr>openStreams := openStreams s - 1\<rparr>"

text \<open>
  One run of \<^verbatim>\<open>onstop\<close> with no other handler in between, given the outcomes of
  the two network calls (the second is used only if the call is made). The
  result lists the state at each \<^verbatim>\<open>await\<close> of a network call, with the call
  in flight, and the state when \<^verbatim>\<open>onstop\<close> has returned. (Were
  \<^verbatim>\<open>processVoiceInput\<close> to throw, the \<^verbatim>\<open>await\<close> would throw in turn and the
  tracks would not be stopped.)
\<close>

definition onstop_run ::
  "session \<Rightarrow> error + transcribe_result \<Rightarrow> error + chat_result \<Rightarrow> (session \<times> call) list \<times> session" where
  "onstop_run s tr cr =
     (case onstop s of
        Finished s' \<Rightarrow> ([], onstop_end s')
      | Thrown s' e \<Rightarrow> ([], s')
      | Awaiting s1 c1 \<Rightarrow>
          (case processVoiceInput_transcribed s1 tr of
             Finished s2 \<Rightarrow> ([(s1, c1)], onstop_end s2)
           | Thrown s2 e \<Rightarrow> ([(s1, c1)], s2)
           | Awaiting s2 c2 \<Rightarrow>
               ([(s1, c1), (s2, c2)], onstop_end (processVoiceInput_replied s2 cr))))"

text \<open>One run of \<^verbatim>\<open>handleSend\<close> with no other handler in between.\<close>

definition handleSend_run ::
  "session \<Rightarrow> error + chat_result \<Rightarrow> double \<Rightarrow> (session \<times> call) list \<times> session" where
  "handleSend_run s result rnd =
     (case handleSend s of
        Finished s' \<Rightarrow> ([], s')
      | Thrown s' e \<Rightarrow> ([], s')
      | Awaiting s1 c \<Rightarrow> ([(s1, c)], handleSend_resume s1 result rnd))"

subsection \<open>Sequences of events\<close>

text \<open>
  Everything that can happen to the component, one event per handler segment;
  \<open>SetInput\<close> is the \<^verbatim>\<open>onChange\<close> of the text field.
\<close>

datatype event =
    SetInput jsstring
  | Send
  | SendResumed "error + chat_result" double
  | MicButton
  | MediaResolved media_outcome
  | DataAvailable blob
  | RecorderStopped
  | Transcribed "error + transcribe_result"
  | Replied "error + chat_result"
  | TracksStopped

fun step :: "session \<Rightarrow> event \<Rightarrow> session" where
  "step s (SetInput t) = s\<lparr>input := t\<rparr>"
| "step s Send = state_of (handleSend s)"
| "step s (SendResumed result rnd) = handleSend_resume s result rnd"
| "step s MicButton = state_of (handleVoiceInput s)"
| "step s (MediaResolved m) = startRecording_resume s m"
| "step s (DataAvailable d) = ondataavailable s d"
| "step s RecorderStopped = state_of (onstop s)"
| "step s (Transcribed tr) = state_of (processVoiceInput_transcribed s tr)"
| "step s (Replied cr) = processVoiceInput_replied s cr"
| "step s TracksStopped = onstop_end s"

definition run :: "session \<Rightarrow> event list \<Rightarrow> session" where
  "run s evs = foldl step s evs"

subsection \<open>Sample messages and states\<close>

text \<open>The message \<^verbatim>\<open>handleSend\<close> appends for a typed text.\<close>

definition userMessage :: "jsstring \<Rightarrow> message" where
  "userMessage t = \<lparr>role = User, content = Some t, isVoice = False, language = None\<rparr>"

text \<open>A fresh component with English selected and nobody logged in.\<close>

definition fresh :: session where
  "fresh = initial (str ''en'') None"

text \<open>The fresh component with a text typed into the field.\<close>

definition typed :: "jsstring \<Rightarrow> session" where
  "typed t = fresh\<lparr>input := t\<rparr>"

text \<open>
  The fresh component after one recording: the microphone was granted, the
  recording was stopped, and the recorder delivered the data \<open>d\<close>.
\<close>

definition recorded :: "blob \<Rightarrow> session" where
  "recorded d = ondataavailable (stopRecording (startRecording_resume fresh Granted)) d"

definition sampleTranscript :: transcribe_result where
  "sampleTranscript = TranscribeResult True (Some (str ''paani'')) (Some (str ''hi''))"

text \<open>The double nearest to 0.6, which is \<open>5404319552844595 / 2 ^ 53\<close>.\<close>

definition sixTenths :: double where
  "sixTenths = (5404319552844595, 53)"

text \<open>
  The events of a recording of two bytes made and stopped while the reply to a
  typed text is still being loaded (the microphone button is disabled by
  \<^verbatim>\<open>isProcessing\<close> only), its transcription failing.
\<close>

definition failedVoiceWhileLoading :: "event list" where
  "failedVoiceWhileLoading =
     [SetInput (str ''hi''), Send, MicButton, MediaResolved Granted, MicButton,
      DataAvailable [1, 2], RecorderStopped, Transcribed (Inl FetchFailed), TracksStopped]"

section \<open>Properties\<close>

subsection \<open>Auxiliary facts\<close>

lemmas voice_defs =
  onstop_run_def onstop_def onstop_end_def processVoiceInput_def
  processVoiceInput_transcribed_def processVoiceInput_replied_def Let_def

lemmas sample_defs =
  recorded_def fresh_def initial_def ondataavailable_def stopRecording_def
  startRecording_resume_def Blob_def

text \<open>A text trims to the empty string exactly when it is empty or all white space.\<close>

lemma trim_empty_iff: "(trim t = []) = list_all isWhiteSpace t"
proof
  assume "list_all isWhiteSpace t"
  then have d: "dropWhile isWhiteSpace t = []"
    by (simp add: list_all_iff)
  show "trim t = []" unfolding trim_def d by simp
next
  assume "trim t = []"
  then have "dropWhile isWhiteSpace (rev (dropWhile isWhiteSpace t)) = []"
    by (simp add: trim_def)
  then have all: "\<forall>x \<in> set (dropWhile isWhiteSpace t). isWhiteSpace x"
    by (simp add: dropWhile_eq_Nil_conv)
  have "dropWhile isWhiteSpace t = []"
  proof (rule ccontr)
    assume ne: "dropWhile isWhiteSpace t \<noteq> []"
    then have "\<not> isWhiteSpace (hd (dropWhile isWhiteSpace t))" by (rule hd_dropWhile)
    moreover have "hd (dropWhile isWhiteSpace t) \<in> set (dropWhile isWhiteSpace t)"
      using ne by simp
    ultimately show False using all by blast
  qed
  then show "list_all isWhiteSpace t"
    by (simp add: dropWhile_eq_Nil_conv list_all_iff)
qed

text \<open>A number of at most \<open>53 + j\<close> bits has at most \<open>j\<close> bits in excess.\<close>

lemma excess_le: "n < 2 ^ 53 * 2 ^ j \<Longrightarrow> excess n \<le> j"
proof (induction j arbitrary: n)
  case 0
  then show ?case by (simp add: excess.simps)
next
  case (Suc j)
  show ?case
  proof (cases "n < 2 ^ 53")
    case True
    then show ?thesis by (simp add: excess.simps)
  next
    case False
    have "n div 2 < 2 ^ 53 * 2 ^ j" using Suc.prems by simp
    then have "excess (n div 2) \<le> j" by (rule Suc.IH)
    then show ?thesis using False by (subst excess.simps) simp
  qed
qed

text \<open>Rounding raises a number by at most half a unit of the last place kept.\<close>

lemma round53_upper: "round53 n \<le> n + 2 ^ excess n div 2"
proof -
  define p :: nat where "p = 2 ^ excess n"
  define q where "q = n div p"
  define r where "r = n mod p"
  have n: "n = q * p + r" by (simp add: q_def r_def)
  have up: "(q + 1) * p = q * p + p" by (simp add: algebra_simps)
  have half: "p \<le> 2 * r \<Longrightarrow> p \<le> r + p div 2" by presburger
  have rd: "round53 n = (if p < 2 * r \<or> (2 * r = p \<and> odd q) then (q + 1) * p else q * p)"
    by (simp add: round53_def Let_def p_def q_def r_def)
  have "round53 n \<le> n + p div 2"
  proof (cases "p < 2 * r \<or> (2 * r = p \<and> odd q)")
    case True
    then have "p \<le> 2 * r" by auto
    then have "p \<le> r + p div 2" by (rule half)
    then have "q * p + p \<le> n + p div 2" using n by linarith
    moreover have "round53 n = (q + 1) * p" unfolding rd using True by (rule if_P)
    ultimately show ?thesis by (simp only: up)
  next
    case False
    have "q * p \<le> n + p div 2" using n by linarith
    moreover have "round53 n = q * p" unfolding rd using False by (rule if_not_P)
    ultimately show ?thesis by (simp only:)
  qed
  then show ?thesis by (simp only: p_def)
qed

text \<open>
  For a double below 1, the product with 5 rounded to a double is still below
  5: the exact product has at most 56 bits, so rounding adds at most 4 to its
  numerator \<open>5 * m\<close>, and \<open>5 * m + 4 < 5 * 2 ^ k\<close>.
\<close>

lemma floor_product_less:
  assumes "isRandom d"
  shows "Math_floor (double_times d 5) < 5"
proof -
  obtain m k where d: "d = (m, k)" by (cases d)
  have m: "m < 2 ^ 53" "m < 2 ^ k" using assms by (simp_all add: isRandom_def d)
  have "m * 5 < 2 ^ 53 * 2 ^ 3" using m(1) by simp
  then have "excess (m * 5) \<le> 3" by (rule excess_le)
  then have "(2::nat) ^ excess (m * 5) \<le> 2 ^ 3" by (rule power_increasing) simp
  then have "(2::nat) ^ excess (m * 5) div 2 \<le> 4" by simp
  then have "round53 (m * 5) \<le> m * 5 + 4"
    using round53_upper [of "m * 5"] by linarith
  also have "\<dots> < 5 * 2 ^ k" using m(2) by simp
  finally have "round53 (m * 5) div 2 ^ k < 5"
    by (simp add: less_mult_imp_div_less)
  then show ?thesis
    by (simp add: Math_floor_def double_times_def d)
qed

text \<open>
  With \<^verbatim>\<open>Math.random()\<close> a double in \<open>[0, 1)\<close> the index computed by
  \<^verbatim>\<open>handleSend\<close> is in range, so the reply is one of the five fixed texts.
\<close>

lemma fallback_index:
  assumes "isRandom rnd"
  shows "\<exists>fb \<in> set fallbackResponses.
           js_index fallbackResponses (Math_floor (double_times rnd (length fallbackResponses)))
             = Some fb"
proof -
  let ?n = "length fallbackResponses"
  let ?i = "Math_floor (double_times rnd ?n)"
  have n: "?n = 5" by (simp add: fallbackResponses_def)
  have lo: "0 \<le> ?i" by (simp add: Math_floor_def)
  have hi: "?i < int ?n" using floor_product_less [OF assms] by (simp only: n)
  have "nat ?i < ?n" using lo hi by linarith
  then have "fallbackResponses ! nat ?i \<in> set fallbackResponses" by (rule nth_mem)
  moreover have "js_index fallbackResponses ?i = Some (fallbackResponses ! nat ?i)"
    using lo hi by (simp add: js_index_def)
  ultimately show ?thesis by blast
qed

text \<open>At the double 0.6 the product rounds up to 3, so the index is 3.\<close>

lemma index_at_sixTenths: "Math_floor (double_times sixTenths 5) = 3"
  by (simp add: sixTenths_def Math_floor_def double_times_def round53_def excess.simps Let_def)

text \<open>No handler segment removes or reorders a message: each one appends.\<close>

lemma step_appends: "\<exists>ms. messages (step s e) = messages s @ ms"
  by (cases e)
     (auto simp add: handleSend_def handleSend_resume_def handleVoiceInput_def startRecording_def
        startRecording_resume_def stopRecording_def ondataavailable_def onstop_def
        onstop_end_def processVoiceInput_def processVoiceInput_transcribed_def
        processVoiceInput_replied_def Let_def split: sum.splits media_outcome.splits)

lemma run_appends: "\<exists>ms. messages (run s evs) = messages s @ ms"
proof (induction evs arbitrary: s)
  case Nil
  show ?case by (simp add: run_def)
next
  case (Cons e evs)
  from step_appends obtain m1 where m1: "messages (step s e) = messages s @ m1" by blast
  from Cons.IH obtain m2 where m2: "messages (run (step s e) evs) = messages (step s e) @ m2"
    by blast
  have "messages (run s (e # evs)) = messages s @ (m1 @ m2)"
    using m1 m2 by (simp add: run_def)
  then show ?case by blast
qed

text \<open>
  In every state the component can reach, \<^verbatim>\<open>isListening\<close> is set exactly
  when the recorder held by the ref is recording.
\<close>

lemma step_listening:
  "isListening s = (mediaRecorder s = Some Recording)
   \<Longrightarrow> isListening (step s e) = (mediaRecorder (step s e) = Some Recording)"
  by (cases e)
     (auto simp add: handleSend_def handleSend_resume_def handleVoiceInput_def startRecording_def
        startRecording_resume_def stopRecording_def ondataavailable_def onstop_def
        onstop_end_def processVoiceInput_def processVoiceInput_transcribed_def
        processVoiceInput_replied_def Let_def split: sum.splits media_outcome.splits)

lemma run_listening:
  "isListening s = (mediaRecorder s = Some Recording)
   \<Longrightarrow> isListening (run s evs) = (mediaRecorder (run s evs) = Some Recording)"
proof (induction evs arbitrary: s)
  case Nil
  then show ?case by (simp add: run_def)
next
  case (Cons e evs)
  have "isListening (run (step s e) evs) = (mediaRecorder (run (step s e) evs) = Some Recording)"
    by (rule Cons.IH) (rule step_listening [OF Cons.prems])
  then show ?case by (simp add: run_def)
qed

lemma reachable_listening:
  "isListening (run (initial lang uid) evs)
     = (mediaRecorder (run (initial lang uid) evs) = Some Recording)"
  by (rule run_listening) (simp add: initial_def)

subsection \<open>Transcription failures\<close>

text \<open>
  C1, as the specification states it, fails in its return to Idle: the flags
  are independent and the microphone button is disabled by \<^verbatim>\<open>isProcessing\<close>
  only, so a recording can be made while the reply to a typed text is loading.
  In the run below its transcription fails: the apology is appended, and the
  session is not idle when the voice step is over, \<^verbatim>\<open>isLoading\<close> being set.
\<close>

theorem failed_voice_while_loading_counterexample:
  "messages (run fresh failedVoiceWhileLoading) = [greeting, userMessage (str ''hi''), apology]
   \<and> isLoading (run fresh failedVoiceWhileLoading)
   \<and> \<not> idle (run fresh failedVoiceWhileLoading)
   \<and> run fresh failedVoiceWhileLoading
       = snd (onstop_run
                (run fresh [SetInput (str ''hi''), Send, MicButton, MediaResolved Granted,
                            MicButton, DataAvailable [1, 2]])
                (Inl FetchFailed) (Inl FetchFailed))"
  by (simp add: failedVoiceWhileLoading_def run_def fresh_def initial_def handleSend_def
        handleVoiceInput_def startRecording_def startRecording_resume_def stopRecording_def
        ondataavailable_def voice_defs idle_def userMessage_def trim_def str_def
        isWhiteSpace_def Blob_def)

text \<open>
  C1, amended. When the call of \<^verbatim>\<open>transcribeAudio\<close> fails (it throws: \<^verbatim>\<open>fetch\<close>
  rejected, the status was not ok, or the body was not JSON), the voice step
  appends exactly one message, the locally built apology, makes no reply request
  (the transcription is the only call ever in flight), clears \<^verbatim>\<open>isProcessing\<close>,
  releases the stream and leaves everything else as it was: the session is idle
  again exactly when no recording and no text request is under way at that
  moment. The step always ends, since \<open>onstop_run\<close> is a total function. The last
  conjunct is the same fact for the resumption in any state \<open>s'\<close>, whatever
  happened during the call.
\<close>

theorem transcription_failure_appends_one_apology:
  assumes "transcribeAudio fetch (Blob (audioChunks s)) (userId s) = Inl e"
  shows "onstop_run s (transcribeAudio fetch (Blob (audioChunks s)) (userId s)) cr =
           ([(s\<lparr>isProcessing := True\<rparr>, TranscribeAudio (Blob (audioChunks s)) (userId s))],
            s\<lparr>messages := messages s @ [apology], isProcessing := False,
              openStreams := openStreams s - 1\<rparr>)
         \<and> idle (snd (onstop_run s (transcribeAudio fetch (Blob (audioChunks s)) (userId s)) cr))
             = (\<not> isListening s \<and> \<not> isLoading s)
         \<and> processVoiceInput_transcribed s' (transcribeAudio fetch (Blob (audioChunks s)) (userId s))
             = Finished (s'\<lparr>messages := messages s' @ [apology], isProcessing := False\<rparr>)"
  unfolding assms by (simp add: voice_defs idle_def)

theorem transcription_failure_witness:
  "transcribeAudio (\<lambda>q. FetchRejected) (Blob (audioChunks (recorded [1, 2]))) (userId (recorded [1, 2]))
     = Inl FetchFailed
   \<and> messages (snd (onstop_run (recorded [1, 2]) (Inl FetchFailed) (Inl FetchFailed)))
       = [greeting, apology]
   \<and> idle (snd (onstop_run (recorded [1, 2]) (Inl FetchFailed) (Inl FetchFailed)))"
proof -
  have f: "transcribeAudio (\<lambda>q. FetchRejected) (Blob (audioChunks (recorded [1, 2])))
             (userId (recorded [1, 2])) = Inl FetchFailed"
    by (simp add: transcribeAudio_def)
  show ?thesis
    using transcription_failure_appends_one_apology [OF f, of "Inl FetchFailed" fresh]
    by (simp add: sample_defs transcribeAudio_def idle_def)
qed

subsection \<open>Recordings without audio\<close>




subsection \<open>The microphone\<close>

text \<open>
  C3, as the specification states it, fails: \<^verbatim>\<open>onstop\<close> stops the tracks of its
  stream only after \<^verbatim>\<open>processVoiceInput\<close> has returned. In the sample below a
  recording of two bytes is transcribed and answered; the microphone is held at
  both points where a network call is in flight.
\<close>

theorem microphone_held_during_calls_counterexample:
  "map (\<lambda>p. (micHeld (fst p), snd p))
     (fst (onstop_run (recorded [1, 2]) (Inr sampleTranscript)
            (Inr (ChatResult (Some (str ''ok'')) None))))
   = [(True, TranscribeAudio [1, 2] None),
      (True, VoiceChat (Some (str ''paani'')) (Some (str ''hi'')) None)]"
  by (simp add: sample_defs voice_defs micHeld_def truthy_def js_or_def str_def
        sampleTranscript_def)

text \<open>
  C3, amended. In every voice step the stream of the recording stays open while
  the transcription call and the reply call are in flight (the number of open
  streams is the one \<^verbatim>\<open>onstop\<close> started with), and it is released when
  \<^verbatim>\<open>onstop\<close> returns, on every outcome of the two calls.
\<close>

theorem microphone_released_when_onstop_returns:
  "fst (onstop_run s tr cr) \<noteq> []
   \<and> list_all (\<lambda>p. openStreams (fst p) = openStreams s) (fst (onstop_run s tr cr))
   \<and> openStreams (snd (onstop_run s tr cr)) = openStreams s - 1"
  by (simp add: voice_defs split: sum.splits)

subsection \<open>Text chat\<close>

text \<open>
  C4. When the user submits a text that passes the guard of \<^verbatim>\<open>handleSend\<close> and
  the call of \<^verbatim>\<open>voiceChat\<close> fails, the transcript gains the user's message and
  then exactly one assistant message whose content is one of the five fixed
  fallback replies, and \<^verbatim>\<open>isLoading\<close> is cleared. \<open>rnd\<close> is the value of
  \<^verbatim>\<open>Math.random()\<close>, a double in \<open>[0, 1)\<close>. The second conjunct is the same
  fact for the resumption in any state \<open>s'\<close>. The third is the voice path: when
  the reply to a transcribed text fails, the one assistant message appended is
  the fixed apology.
\<close>

theorem response_failure_appends_one_fallback:
  assumes "\<not> list_all isWhiteSpace (input s)" and "\<not> isLoading s" and "isRandom rnd"
  shows "\<exists>fb \<in> set fallbackResponses.
           handleSend_run s (Inl e) rnd =
             ([(s\<lparr>messages := messages s @ [userMessage (input s)], input := [], isLoading := True\<rparr>,
                VoiceChat (Some (input s)) (js_or (Some (uiLanguage s)) (Some (str ''en''))) (userId s))],
              s\<lparr>messages := messages s @
                   [userMessage (input s),
                    \<lparr>role = Assistant, content = Some fb, isVoice = False, language = None\<rparr>],
                input := [], isLoading := False\<rparr>)
           \<and> handleSend_resume s' (Inl e) rnd =
               s'\<lparr>messages := messages s' @
                     [\<lparr>role = Assistant, content = Some fb, isVoice = False, language = None\<rparr>],
                  isLoading := False\<rparr>
           \<and> processVoiceInput_replied s' (Inl e) =
               s'\<lparr>messages := messages s' @ [apology], isProcessing := False\<rparr>"
proof -
  from fallback_index [OF assms(3)] obtain fb where
    fb: "fb \<in> set fallbackResponses"
      "js_index fallbackResponses (Math_floor (double_times rnd (length fallbackResponses)))
         = Some fb"
    by blast
  have t: "trim (input s) \<noteq> []" using assms(1) by (simp add: trim_empty_iff)
  have "handleSend_run s (Inl e) rnd =
             ([(s\<lparr>messages := messages s @ [userMessage (input s)], input := [], isLoading := True\<rparr>,
                VoiceChat (Some (input s)) (js_or (Some (uiLanguage s)) (Some (str ''en''))) (userId s))],
              s\<lparr>messages := messages s @
                   [userMessage (input s),
                    \<lparr>role = Assistant, content = Some fb, isVoice = False, language = None\<rparr>],
                input := [], isLoading := False\<rparr>)"
    using t assms(2) fb(2)
    by (simp add: handleSend_run_def handleSend_def handleSend_resume_def userMessage_def Let_def)
  moreover have "handleSend_resume s' (Inl e) rnd =
               s'\<lparr>messages := messages s' @
                     [\<lparr>role = Assistant, content = Some fb, isVoice = False, language = None\<rparr>],
                  isLoading := False\<rparr>"
    using fb(2) by (simp add: handleSend_resume_def Let_def)
  moreover have "processVoiceInput_replied s' (Inl e) =
               s'\<lparr>messages := messages s' @ [apology], isProcessing := False\<rparr>"
    by (simp add: processVoiceInput_replied_def)
  ultimately show ?thesis using fb(1) by blast
qed

theorem response_failure_witness:
  "\<not> list_all isWhiteSpace (input (typed (str ''hi''))) \<and> \<not> isLoading (typed (str ''hi''))
   \<and> isRandom sixTenths
   \<and> messages (snd (handleSend_run (typed (str ''hi'')) (Inl FetchFailed) sixTenths))
       = [greeting, userMessage (str ''hi''),
          \<lparr>role = Assistant, content = Some (fallbackResponses ! 3), isVoice = False,
            language = None\<rparr>]"
proof -
  have a: "\<not> list_all isWhiteSpace (input (typed (str ''hi'')))"
    by (simp add: typed_def str_def isWhiteSpace_def)
  have b: "\<not> isLoading (typed (str ''hi''))"
    by (simp add: typed_def fresh_def initial_def)
  have c: "isRandom sixTenths"
    by (simp add: isRandom_def sixTenths_def)
  have n: "length fallbackResponses = 5" by (simp add: fallbackResponses_def)
  have i: "js_index fallbackResponses (Math_floor (double_times sixTenths (length fallbackResponses)))
             = Some (fallbackResponses ! 3)"
    by (simp add: n index_at_sixTenths js_index_def)
  show ?thesis
    using response_failure_appends_one_fallback [OF a b c, of FetchFailed fresh] a b c i
    by (auto simp add: typed_def fresh_def initial_def handleSend_resume_def Let_def)
qed

text \<open>
  C6. When the user submits a text that is not blank, no reply being loaded, and
  \<^verbatim>\<open>voiceChat\<close> succeeds, the transcript gains exactly the user's message with
  the submitted text followed by the assistant's message with the returned
  reply, in that order; the only call made is the reply request; and the session
  ends idle (it does whenever no voice stage is under way).
\<close>

theorem successful_send_appends_question_then_reply:
  assumes "\<not> list_all isWhiteSpace (input s)" and "\<not> isLoading s"
  shows "handleSend_run s (Inr r) rnd =
           ([(s\<lparr>messages := messages s @ [userMessage (input s)], input := [], isLoading := True\<rparr>,
              VoiceChat (Some (input s)) (js_or (Some (uiLanguage s)) (Some (str ''en''))) (userId s))],
            s\<lparr>messages := messages s @
                 [userMessage (input s),
                  \<lparr>role = Assistant, content = response r, isVoice = False,
                    language = reply_language r\<rparr>],
              input := [], isLoading := False\<rparr>)
         \<and> idle (snd (handleSend_run s (Inr r) rnd)) = (\<not> isListening s \<and> \<not> isProcessing s)"
proof -
  have t: "trim (input s) \<noteq> []" using assms(1) by (simp add: trim_empty_iff)
  show ?thesis
    using t assms(2)
    by (simp add: handleSend_run_def handleSend_def handleSend_resume_def userMessage_def idle_def)
qed

theorem successful_send_witness:
  "\<not> list_all isWhiteSpace (input (typed (str ''What crop should I plant?'')))
   \<and> \<not> isLoading (typed (str ''What crop should I plant?''))
   \<and> messages (snd (handleSend_run (typed (str ''What crop should I plant?''))
                      (Inr (ChatResult (Some (str ''Try wheat this season'')) (Some (str ''en'')))) (0, 0)))
       = [greeting, userMessage (str ''What crop should I plant?''),
          \<lparr>role = Assistant, content = Some (str ''Try wheat this season''), isVoice = False,
            language = Some (str ''en'')\<rparr>]
   \<and> idle (snd (handleSend_run (typed (str ''What crop should I plant?''))
                  (Inr (ChatResult (Some (str ''Try wheat this season'')) (Some (str ''en'')))) (0, 0)))"
proof -
  have a: "\<not> list_all isWhiteSpace (input (typed (str ''What crop should I plant?'')))"
    by (simp add: typed_def str_def isWhiteSpace_def)
  have b: "\<not> isLoading (typed (str ''What crop should I plant?''))"
    by (simp add: typed_def fresh_def initial_def)
  show ?thesis
    using successful_send_appends_question_then_reply
            [OF a b, of "ChatResult (Some (str ''Try wheat this season'')) (Some (str ''en''))" "(0, 0)"]
      a b
    by (simp add: typed_def fresh_def initial_def idle_def)
qed

text \<open>
  C7, as the specification states it, fails: nothing is rejected. On an empty
  text and on a text of white space \<^verbatim>\<open>handleSend\<close> returns at its guard: the
  handler has finished, not thrown, and no alert has been shown.
\<close>

theorem blank_input_not_rejected_counterexample:
  "handleSend (typed []) = Finished (typed [])
   \<and> handleSend (typed [32, 9, 160]) = Finished (typed [32, 9, 160])
   \<and> alerts (state_of (handleSend (typed []))) = []
   \<and> alerts (state_of (handleSend (typed [32, 9, 160]))) = []"
  by (simp add: handleSend_def typed_def fresh_def initial_def trim_def isWhiteSpace_def)

text \<open>
  C7, amended. When the text in the field is empty or consists of white space
  only, \<^verbatim>\<open>handleSend\<close> returns silently at its guard, with no error thrown or
  shown: the whole state is unchanged, so no message is appended and no flag
  changes, and no call is made.
\<close>

theorem blank_input_is_ignored:
  assumes "list_all isWhiteSpace (input s)"
  shows "handleSend s = Finished s \<and> handleSend_run s result rnd = ([], s)"
proof -
  have "trim (input s) = []" using assms by (simp add: trim_empty_iff)
  then show ?thesis by (simp add: handleSend_run_def handleSend_def)
qed

theorem blank_input_witness:
  "list_all isWhiteSpace (input (typed [32, 9, 160]))
   \<and> handleSend (typed [32, 9, 160]) = Finished (typed [32, 9, 160])
   \<and> list_all isWhiteSpace (input (typed []))
   \<and> handleSend (typed []) = Finished (typed [])"
proof -
  have a: "list_all isWhiteSpace (input (typed [32, 9, 160]))"
    by (simp add: typed_def isWhiteSpace_def)
  have b: "list_all isWhiteSpace (input (typed []))"
    by (simp add: typed_def)
  show ?thesis
    using blank_input_is_ignored [OF a, of "Inl FetchFailed" "(0, 0)"]
          blank_input_is_ignored [OF b, of "Inl FetchFailed" "(0, 0)"] a b
    by simp
qed

subsection \<open>The transcription client\<close>

text \<open>
  C5, as the specification states it, fails: \<^verbatim>\<open>transcribeAudio\<close> looks at no
  size. With a server that answers every request with a transcript, an empty
  buffer and a buffer of one byte more than 10 MB both come back as successes.
\<close>

theorem transcribeAudio_accepts_any_size_counterexample:
  "transcribeAudio (\<lambda>q. HttpOk (Some sampleTranscript)) [] None = Inr sampleTranscript
   \<and> transcribeAudio (\<lambda>q. HttpOk (Some sampleTranscript)) (replicate (10 * 1024 * 1024 + 1) 0) None
       = Inr sampleTranscript"
  by (simp add: transcribeAudio_def)

text \<open>
  C5, amended. For every buffer, of any size, \<^verbatim>\<open>transcribeAudio\<close> posts the
  buffer to \<^verbatim>\<open>/voice/transcribe\<close> and returns a result exactly when the
  response to that request is ok and its body is JSON, the result being that
  body; it rejects in every other case and in no case before the request.
\<close>

theorem transcribeAudio_result_is_the_response:
  "(transcribeAudio fetch audioBlob farmerId = Inr r)
     = (fetch (Post ''/voice/transcribe''
                 (FormData audioBlob (if truthy farmerId then farmerId else None)))
          = HttpOk (Some r))"
  by (simp add: transcribeAudio_def Let_def split: http_outcome.splits option.splits)

subsection \<open>The microphone button\<close>

text \<open>
  C8, as the specification states it, fails: nothing is rejected. A second
  \<^verbatim>\<open>startRecording\<close> that resumes while a recording is active (the button was
  pressed twice before the first permission request resolved) goes through and
  opens a second stream; and pressing the button while \<^verbatim>\<open>isListening\<close> is set
  ends the active recording.
\<close>

theorem second_start_not_rejected_counterexample:
  "isListening (startRecording_resume fresh Granted)
   \<and> mediaRecorder (startRecording_resume fresh Granted) = Some Recording
   \<and> openStreams (startRecording_resume (startRecording_resume fresh Granted) Granted) = 2
   \<and> run fresh [MicButton, MicButton, MediaResolved Granted, MediaResolved Granted]
       = startRecording_resume (startRecording_resume fresh Granted) Granted
   \<and> handleVoiceInput (startRecording_resume fresh Granted)
       = Finished ((startRecording_resume fresh Granted)
                     \<lparr>mediaRecorder := Some Inactive, isListening := False\<rparr>)"
  by (simp add: run_def handleVoiceInput_def startRecording_def startRecording_resume_def
        stopRecording_def fresh_def initial_def)

text \<open>
  C8, amended. In every state the component can reach in which the recorder is
  recording, pressing the microphone button starts no second recording: it
  requests no microphone, stops the active recording and clears
  \<^verbatim>\<open>isListening\<close>, and the press itself changes neither the transcript nor the
  chunk array.
\<close>

theorem mic_button_while_recording_stops:
  assumes "s = run (initial lang uid) evs" and "mediaRecorder s = Some Recording"
  shows "handleVoiceInput s = Finished (s\<lparr>mediaRecorder := Some Inactive, isListening := False\<rparr>)
         \<and> in_flight (handleVoiceInput s) = None
         \<and> messages (state_of (handleVoiceInput s)) = messages s
         \<and> audioChunks (state_of (handleVoiceInput s)) = audioChunks s
         \<and> openStreams (state_of (handleVoiceInput s)) = openStreams s"
proof -
  have "isListening s" using assms reachable_listening [of lang uid evs] by simp
  then show ?thesis using assms(2) by (simp add: handleVoiceInput_def stopRecording_def)
qed

theorem mic_button_while_recording_witness:
  "run fresh [MicButton, MediaResolved Granted] = run (initial (str ''en'') None) [MicButton, MediaResolved Granted]
   \<and> mediaRecorder (run fresh [MicButton, MediaResolved Granted]) = Some Recording
   \<and> state_of (handleVoiceInput (run fresh [MicButton, MediaResolved Granted]))
       = fresh\<lparr>openStreams := 1, mediaRecorder := Some Inactive\<rparr>"
proof -
  have a: "run fresh [MicButton, MediaResolved Granted]
             = run (initial (str ''en'') None) [MicButton, MediaResolved Granted]"
    by (simp add: fresh_def)
  have b: "mediaRecorder (run fresh [MicButton, MediaResolved Granted]) = Some Recording"
    by (simp add: run_def handleVoiceInput_def startRecording_def startRecording_resume_def
          fresh_def initial_def)
  show ?thesis
    using mic_button_while_recording_stops [OF a b] a b
    by (simp add: run_def handleVoiceInput_def startRecording_def startRecording_resume_def
          fresh_def initial_def)
qed

subsection \<open>Transcriptions that cannot be used\<close>

text \<open>
  C9. When \<^verbatim>\<open>transcribeAudio\<close> returns without throwing and the result has a
  false \<^verbatim>\<open>success\<close> or a missing or empty \<^verbatim>\<open>text\<close>, the voice step appends no
  message, shows no alert and makes no reply request: the transcription is the
  only call, and the state at the end is the state \<^verbatim>\<open>onstop\<close> started in, with
  \<^verbatim>\<open>isProcessing\<close> cleared and the stream of the recording released.
\<close>

theorem unusable_transcription_changes_nothing:
  assumes "\<not> (success r \<and> truthy (result_text r))"
  shows "onstop_run s (Inr r) cr =
           ([(s\<lparr>isProcessing := True\<rparr>, TranscribeAudio (Blob (audioChunks s)) (userId s))],
            s\<lparr>isProcessing := False, openStreams := openStreams s - 1\<rparr>)
         \<and> processVoiceInput_transcribed s' (Inr r) = Finished (s'\<lparr>isProcessing := False\<rparr>)"
  using assms by (auto simp add: voice_defs)

theorem unusable_transcription_witness:
  "\<not> (success (TranscribeResult False (Some (str ''x'')) None)
       \<and> truthy (result_text (TranscribeResult False (Some (str ''x'')) None)))
   \<and> \<not> (success (TranscribeResult True (Some []) None)
       \<and> truthy (result_text (TranscribeResult True (Some []) None)))
   \<and> snd (onstop_run (recorded [1, 2]) (Inr (TranscribeResult False (Some (str ''x'')) None))
            (Inl FetchFailed))
       = (recorded [1, 2])\<lparr>openStreams := 0\<rparr>
   \<and> snd (onstop_run (recorded [1, 2]) (Inr (TranscribeResult True (Some []) None))
            (Inl FetchFailed))
       = (recorded [1, 2])\<lparr>openStreams := 0\<rparr>"
proof -
  have a: "\<not> (success (TranscribeResult False (Some (str ''x'')) None)
      \<and> truthy (result_text (TranscribeResult False (Some (str ''x'')) None)))"
    by simp
  have b: "\<not> (success (TranscribeResult True (Some []) None)
      \<and> truthy (result_text (TranscribeResult True (Some []) None)))"
    by (simp add: truthy_def)
  show ?thesis
    using unusable_transcription_changes_nothing [OF a, of "recorded [1, 2]" "Inl FetchFailed" fresh]
          unusable_transcription_changes_nothing [OF b, of "recorded [1, 2]" "Inl FetchFailed" fresh]
          a b
    by (simp add: sample_defs)
qed

subsection \<open>The greeting\<close>

text \<open>
  C10. The transcript of a fresh component is the one greeting of the assistant,
  and after any sequence of events the transcript still begins with it: it is
  never empty and its first message has the role of the assistant.
\<close>

theorem transcript_starts_with_greeting:
  "messages (initial lang uid) = [greeting]
   \<and> role greeting = Assistant
   \<and> (\<exists>ms. messages (run (initial lang uid) evs) = greeting # ms)
   \<and> messages (run (initial lang uid) evs) \<noteq> []
   \<and> role (hd (messages (run (initial lang uid) evs))) = Assistant"
proof -
  from run_appends obtain ms where
    "messages (run (initial lang uid) evs) = messages (initial lang uid) @ ms" by blast
  then have m: "messages (run (initial lang uid) evs) = greeting # ms"
    by (simp add: initial_def)
  have g: "role greeting = Assistant" by (simp add: greeting_def)
  show ?thesis using m g by (simp add: initial_def)
qed

end
